theory Spec2Isabelle
  imports Complex_Main
begin

section \<open>Python strings\<close>

text \<open>
  A Python \<open>str\<close> is modelled as an Isabelle \<open>string\<close>: its characters are the code points
  below 256, the Latin-1 range, which holds ASCII. The character classes and the case
  conversions below are those of Python on that range. Three characters of it have an
  upper case that is not one character of the range: the micro sign (181), which
  \<open>str.capitalize\<close> turns into the code point 924, the sharp s (223), which it turns into
  the two characters Ss, and the y with diaeresis (255), which it turns into the code
  point 376. In the first place of a string they are left as they are here; what is
  proved about the case of a name is stated for a text without them.
\<close>

definition is_space :: "char \<Rightarrow> bool" where
  \<comment> \<open>\<open>str.isspace\<close> and the pattern class \<open>\s\<close>: TAB, LF, VT, FF, CR, FS, GS, RS, US, SPACE,
      the next-line control (133) and the no-break space (160)\<close>
  "is_space c =
     (let n = (of_char c :: nat)
      in (9 \<le> n \<and> n \<le> 13) \<or> (28 \<le> n \<and> n \<le> 32) \<or> n = 133 \<or> n = 160)"

definition is_digit :: "char \<Rightarrow> bool" where
  \<comment> \<open>the pattern class \<open>\d\<close>: the range has no decimal digit but 0 to 9\<close>
  "is_digit c = (let n = (of_char c :: nat) in 48 \<le> n \<and> n \<le> 57)"

definition is_upper :: "char \<Rightarrow> bool" where
  \<comment> \<open>the upper-case letters: A to Z, and 192 to 222 but the multiplication sign (215)\<close>
  "is_upper c =
     (let n = (of_char c :: nat)
      in (65 \<le> n \<and> n \<le> 90) \<or> (192 \<le> n \<and> n \<le> 222 \<and> n \<noteq> 215))"

definition is_lower :: "char \<Rightarrow> bool" where
  \<comment> \<open>the lower-case letters whose upper case is a character of the range: a to z, and 224
      to 254 but the division sign (247)\<close>
  "is_lower c =
     (let n = (of_char c :: nat)
      in (97 \<le> n \<and> n \<le> 122) \<or> (224 \<le> n \<and> n \<le> 254 \<and> n \<noteq> 247))"

definition is_word :: "char \<Rightarrow> bool" where
  \<comment> \<open>the pattern class \<open>\w\<close>: the underscore and what \<open>str.isalnum\<close> accepts, which is the
      letters and digits above and, with no case in the range, the ordinal indicators (170,
      186), the micro sign (181), the sharp s (223), the y with diaeresis (255), the
      superscripts (178, 179, 185) and the fractions (188 to 190)\<close>
  "is_word c =
     (is_upper c \<or> is_lower c \<or> is_digit c \<or> c = CHR ''_'' \<or>
      (of_char c :: nat) \<in> set [170, 178, 179, 181, 185, 186, 188, 189, 190, 223, 255])"

definition lower_chr :: "char \<Rightarrow> char" where
  \<comment> \<open>\<open>str.lower\<close> on one character\<close>
  "lower_chr c = (if is_upper c then char_of ((of_char c :: nat) + 32) else c)"

definition upper_chr :: "char \<Rightarrow> char" where
  \<comment> \<open>the upper case of one character, where it is a character of the range\<close>
  "upper_chr c = (if is_lower c then char_of ((of_char c :: nat) - 32) else c)"

definition lower_str :: "string \<Rightarrow> string" where
  \<comment> \<open>\<open>str.lower\<close>\<close>
  "lower_str s = map lower_chr s"

fun capitalize :: "string \<Rightarrow> string" where
  \<comment> \<open>\<open>str.capitalize\<close>: the first character upper-cased, all the others lower-cased\<close>
  "capitalize [] = []"
| "capitalize (c # cs) = upper_chr c # map lower_chr cs"

definition strip :: "string \<Rightarrow> string" where
  \<comment> \<open>\<open>str.strip()\<close>: white space removed at both ends\<close>
  "strip s = rev (dropWhile is_space (rev (dropWhile is_space s)))"

fun split_on :: "char \<Rightarrow> string \<Rightarrow> string list" where
  \<comment> \<open>\<open>str.split(sep)\<close> for a separator of one character; never the empty list\<close>
  "split_on sep [] = [[]]"
| "split_on sep (c # cs) =
     (if c = sep then [] # split_on sep cs
      else (case split_on sep cs of
              [] \<Rightarrow> [[c]]
            | l # ls \<Rightarrow> (c # l) # ls))"

section \<open>The patterns of module \<open>re\<close>\<close>

text \<open>
  The fragment of Python's regular expressions that the program's four patterns use.
  A group is a capturing group with its number; \<open>(?:...)\<close> needs no constructor.
\<close>

datatype cclass = Word | Space | Digit

datatype regex =
    Lit char
  | Class cclass
  | Seq regex regex
  | Alt regex regex
  | Opt regex
  | Star regex
  | Group nat regex

definition Plus :: "regex \<Rightarrow> regex" where
  "Plus r = Seq r (Star r)"

fun in_class :: "cclass \<Rightarrow> char \<Rightarrow> bool" where
  "in_class Word c = is_word c"
| "in_class Space c = is_space c"
| "in_class Digit c = is_digit c"

type_synonym captures = "nat \<Rightarrow> string"

text \<open>
  The backtracking matcher. \<open>matches ic r s g\<close> lists every way in which \<open>r\<close> matches
  a prefix of \<open>s\<close>, in the order in which the backtracking search of \<open>re\<close> tries them:
  greedy repetition takes one more round before it gives up, an optional part is tried
  before it is skipped, an alternation goes from left to right. Each way is the rest of
  the input with the captured groups. \<open>ic\<close> is the flag \<open>re.IGNORECASE\<close>. A round of a
  repetition that consumes nothing ends the repetition.
\<close>

function matches :: "bool \<Rightarrow> regex \<Rightarrow> string \<Rightarrow> captures \<Rightarrow> (string \<times> captures) list" where
  "matches ic (Lit c) s g =
     (case s of
        [] \<Rightarrow> []
      | x # t \<Rightarrow> if (if ic then lower_chr x = lower_chr c else x = c) then [(t, g)] else [])"
| "matches ic (Class k) s g =
     (case s of
        [] \<Rightarrow> []
      | x # t \<Rightarrow> if in_class k x then [(t, g)] else [])"
| "matches ic (Seq a b) s g =
     concat (map (\<lambda>p. matches ic b (fst p) (snd p)) (matches ic a s g))"
| "matches ic (Alt a b) s g = matches ic a s g @ matches ic b s g"
| "matches ic (Opt a) s g = matches ic a s g @ [(s, g)]"
| "matches ic (Star a) s g =
     concat (map (\<lambda>p. if length (fst p) < length s then matches ic (Star a) (fst p) (snd p) else [])
                 (matches ic a s g))
     @ [(s, g)]"
| "matches ic (Group n a) s g =
     map (\<lambda>p. (fst p, (snd p)(n := take (length s - length (fst p)) s))) (matches ic a s g)"
  by pat_completeness auto
termination
  by (relation "inv_image (less_than <*lex*> less_than) (\<lambda>(ic, r, s, g). (size r, length s))")
     auto

fun ngroups :: "regex \<Rightarrow> nat" where
  "ngroups (Lit c) = 0"
| "ngroups (Class k) = 0"
| "ngroups (Seq a b) = ngroups a + ngroups b"
| "ngroups (Alt a b) = ngroups a + ngroups b"
| "ngroups (Opt a) = ngroups a"
| "ngroups (Star a) = ngroups a"
| "ngroups (Group n a) = Suc (ngroups a)"

definition match_here :: "bool \<Rightarrow> regex \<Rightarrow> string \<Rightarrow> (string \<times> captures) option" where
  \<comment> \<open>the match that starts at the head of the input: the first way found\<close>
  "match_here ic r s = (case matches ic r s (\<lambda>_. []) of [] \<Rightarrow> None | p # _ \<Rightarrow> Some p)"

definition groups_of :: "regex \<Rightarrow> string \<Rightarrow> string \<Rightarrow> captures \<Rightarrow> string list" where
  \<comment> \<open>what \<open>findall\<close> reports for one match: the groups in order, or the whole match
      when the pattern has no group\<close>
  "groups_of r s t g =
     (if ngroups r = 0 then [take (length s - length t) s]
      else map g [1 ..< Suc (ngroups r)])"

function findall :: "bool \<Rightarrow> regex \<Rightarrow> string \<Rightarrow> string list list" where
  "findall ic r s =
     (case match_here ic r s of
        None \<Rightarrow> (case s of [] \<Rightarrow> [] | _ # s' \<Rightarrow> findall ic r s')
      | Some (t, g) \<Rightarrow>
          groups_of r s t g #
            (if length t < length s then findall ic r t
             else (case s of [] \<Rightarrow> [] | _ # s' \<Rightarrow> findall ic r s')))"
  by pat_completeness auto
termination
  by (relation "measure (\<lambda>(ic, r, s). length s)") auto

function search :: "bool \<Rightarrow> regex \<Rightarrow> string \<Rightarrow> captures option" where
  \<comment> \<open>\<open>re.search\<close>: the leftmost match, or \<open>None\<close>\<close>
  "search ic r s =
     (case match_here ic r s of
        Some (t, g) \<Rightarrow> Some g
      | None \<Rightarrow> (case s of [] \<Rightarrow> None | _ # s' \<Rightarrow> search ic r s'))"
  by pat_completeness auto
termination
  by (relation "measure (\<lambda>(ic, r, s). length s)") auto

section \<open>The entry extractor: \<open>parse_prescription_text\<close>\<close>

fun lits :: "char \<Rightarrow> string \<Rightarrow> regex" where
  \<comment> \<open>a literal word of the pattern, character by character\<close>
  "lits c [] = Lit c"
| "lits c (d # ds) = Seq (Lit c) (lits d ds)"

definition number_re :: regex where
  \<comment> \<open>\<open>\d+(?:\.\d+)?\<close>\<close>
  "number_re = Seq (Plus (Class Digit)) (Opt (Seq (Lit CHR ''.'') (Plus (Class Digit))))"

definition units_re :: regex where
  \<comment> \<open>\<open>mg|ml|g|mcg|units?\<close>\<close>
  "units_re =
     Alt (lits CHR ''m'' ''g'')
    (Alt (lits CHR ''m'' ''l'')
    (Alt (Lit CHR ''g'')
    (Alt (lits CHR ''m'' ''cg'')
         (Seq (lits CHR ''u'' ''nit'') (Opt (Lit CHR ''s''))))))"

definition dosage_re :: regex where
  \<comment> \<open>\<open>\d+(?:\.\d+)?\s*(?:mg|ml|g|mcg|units?)\<close>\<close>
  "dosage_re = Seq number_re (Seq (Star (Class Space)) units_re)"

definition pattern_1 :: regex where
  \<comment> \<open>\<open>(\w+)\s+(\d+(?:\.\d+)?\s*(?:mg|ml|g|mcg|units?))\<close>, "Medicine 25mg"\<close>
  "pattern_1 =
     Seq (Group 1 (Plus (Class Word))) (Seq (Plus (Class Space)) (Group 2 dosage_re))"

definition pattern_2 :: regex where
  \<comment> \<open>\<open>(\w+)\s*:\s*(\d+(?:\.\d+)?\s*(?:mg|ml|g|mcg|units?))\<close>, "Medicine: 25mg"\<close>
  "pattern_2 =
     Seq (Group 1 (Plus (Class Word)))
       (Seq (Star (Class Space))
         (Seq (Lit CHR '':'') (Seq (Star (Class Space)) (Group 2 dosage_re))))"

definition pattern_3 :: regex where
  \<comment> \<open>\<open>(\w+)\s+(\d+(?:\.\d+)?)\s*(mg|ml|g|mcg|units?)\<close>, "Medicine 25 mg"\<close>
  "pattern_3 =
     Seq (Group 1 (Plus (Class Word)))
       (Seq (Plus (Class Space))
         (Seq (Group 2 number_re) (Seq (Star (Class Space)) (Group 3 units_re))))"

definition medication_patterns :: "regex list" where
  "medication_patterns = [pattern_1, pattern_2, pattern_3]"

type_synonym extraction = "string list \<times> string list"

definition add_match :: "string list \<Rightarrow> extraction \<Rightarrow> extraction" where
  \<comment> \<open>the body of \<open>for match in matches\<close>; the two lists are \<open>medications\<close> and \<open>dosages\<close>\<close>
  "add_match m acc =
     (case acc of (medications, dosages) \<Rightarrow>
        if length m = 2 then
          (medications @ [capitalize (m ! 0)], dosages @ [m ! 1])
        else if length m = 3 then
          (medications @ [capitalize (m ! 0)], dosages @ [m ! 1 @ '' '' @ m ! 2])
        else (medications, dosages))"

definition try_pattern :: "string \<Rightarrow> regex \<Rightarrow> extraction \<Rightarrow> extraction" where
  \<comment> \<open>the body of \<open>for pattern in medication_patterns\<close>\<close>
  "try_pattern line pattern acc = fold add_match (findall True pattern line) acc"

definition scan_line :: "string \<Rightarrow> extraction \<Rightarrow> extraction" where
  \<comment> \<open>the body of \<open>for line in lines\<close>\<close>
  "scan_line line0 acc =
     (let line = strip line0 in
      if line = [] then acc
      else fold (try_pattern line) medication_patterns acc)"

definition parse_prescription_text :: "string \<Rightarrow> extraction" where
  "parse_prescription_text text =
     (let lines = split_on (CHR 0x0A) text in
      fold scan_line lines ([], []))"

section \<open>Python floats\<close>

text \<open>
  A Python \<open>float\<close> is an IEEE 754 binary64 number. The program only ever holds
  non-negative ones, so a float is modelled by its exact rational value, or it is the
  positive infinity; every operation rounds the exact result to the nearest binary64
  number, ties to the even significand.
\<close>

datatype pyfloat = Finite rat | Infinity

datatype error = ValueError

function bit_length :: "int \<Rightarrow> nat" where
  \<comment> \<open>\<open>int.bit_length\<close>, for an integer that is not negative\<close>
  "bit_length n = (if n \<le> 0 then 0 else Suc (bit_length (n div 2)))"
  by pat_completeness auto
termination
  by (relation "measure nat") auto

declare bit_length.simps [simp del]

definition pow2 :: "int \<Rightarrow> rat" where
  "pow2 e = (if 0 \<le> e then 2 ^ nat e else 1 / 2 ^ nat (- e))"

definition floor_log2 :: "rat \<Rightarrow> int" where
  \<comment> \<open>for \<open>0 < q\<close>: the \<open>k\<close> with \<open>2 ^ k \<le> q < 2 ^ (k + 1)\<close>\<close>
  "floor_log2 q =
     (case quotient_of q of (a, b) \<Rightarrow>
        let k = int (bit_length a) - int (bit_length b)
        in if pow2 k \<le> q then k else k - 1)"

definition round_half_even :: "rat \<Rightarrow> int" where
  "round_half_even q =
     (let f = \<lfloor>q\<rfloor>; d = q - of_int f
      in if d < 1 / 2 then f
         else if 1 / 2 < d then f + 1
         else if even f then f else f + 1)"

definition round_double :: "rat \<Rightarrow> pyfloat" where
  \<comment> \<open>the binary64 number nearest to \<open>q \<ge> 0\<close>: a significand \<open>m\<close> of at most 53 bits times
      \<open>2 ^ e\<close>, where \<open>e\<close> is at least -1074 and at most 971; what rounds to \<open>2 ^ 1024\<close> or
      beyond is the infinity\<close>
  "round_double q =
     (if q \<le> 0 then Finite 0
      else let e = max (floor_log2 q - 52) (- 1074);
               m = round_half_even (q / pow2 e)
           in if 971 < e \<or> (e = 971 \<and> 2 ^ 53 \<le> m) then Infinity
              else Finite (of_int m * pow2 e))"

definition digit_val :: "char \<Rightarrow> int" where
  "digit_val c = (of_char c :: int) - 48"

definition int_of_digits :: "string \<Rightarrow> int" where
  "int_of_digits ds = foldl (\<lambda>a c. 10 * a + digit_val c) 0 ds"

definition py_float :: "string \<Rightarrow> error + pyfloat" where
  \<comment> \<open>\<open>float(s)\<close> on a decimal literal \<open>digits\<close> or \<open>digits.digits\<close>, the only form the
      program passes; the nearest binary64 number. Any other string is reported as
      \<open>ValueError\<close> here.\<close>
  "py_float s =
     (let ip = takeWhile (\<lambda>c. c \<noteq> CHR ''.'') s;
          rest = dropWhile (\<lambda>c. c \<noteq> CHR ''.'') s;
          fp = tl rest
      in if ip \<noteq> [] \<and> list_all is_digit ip \<and> (rest = [] \<or> (fp \<noteq> [] \<and> list_all is_digit fp))
         then Inr (round_double (of_int (int_of_digits (ip @ fp)) / 10 ^ length fp))
         else Inl ValueError)"

definition float_0_9 :: pyfloat where
  \<comment> \<open>the literal \<open>0.9\<close>\<close>
  "float_0_9 = round_double (9 / 10)"

fun fmul :: "pyfloat \<Rightarrow> pyfloat \<Rightarrow> pyfloat" where
  \<comment> \<open>\<open>x * y\<close>; the second equation is the product of an infinity and a positive number\<close>
  "fmul (Finite a) (Finite b) = round_double (a * b)"
| "fmul _ _ = Infinity"

fun float_le_int :: "pyfloat \<Rightarrow> int \<Rightarrow> bool" where
  \<comment> \<open>\<open>x <= n\<close> for a float and an int: Python compares the exact values\<close>
  "float_le_int (Finite a) n = (a \<le> of_int n)"
| "float_le_int Infinity n = False"

fun float_gt_int :: "pyfloat \<Rightarrow> int \<Rightarrow> bool" where
  "float_gt_int (Finite a) n = (of_int n < a)"
| "float_gt_int Infinity n = True"

function show_int :: "int \<Rightarrow> string" where
  \<comment> \<open>the decimal digits of an integer that is not negative\<close>
  "show_int n =
     (if n < 10 then [char_of (48 + n)]
      else show_int (n div 10) @ [char_of (48 + n mod 10)])"
  by pat_completeness auto
termination
  by (relation "measure nat") auto

declare show_int.simps [simp del]

fun format_1f :: "pyfloat \<Rightarrow> string" where
  \<comment> \<open>the format \<open>:.1f\<close>: the exact value rounded to one decimal, ties to even\<close>
  "format_1f (Finite a) =
     (let n = round_half_even (a * 10)
      in show_int (n div 10) @ ''.'' @ show_int (n mod 10))"
| "format_1f Infinity = ''inf''"

section \<open>The dosage assessor and the pipeline: \<open>analyze_prescription\<close>\<close>

record assessment =
  medicine :: string
  status :: string
  info :: string

definition findall_strings :: "bool \<Rightarrow> regex \<Rightarrow> string \<Rightarrow> string list" where
  \<comment> \<open>\<open>re.findall\<close> for a pattern with one group: a list of strings, not of tuples\<close>
  "findall_strings ic r s = map (\<lambda>m. m ! 0) (findall ic r s)"

definition dosage_numbers_of :: "string \<Rightarrow> string list" where
  \<comment> \<open>\<open>re.findall(r'(\d+(?:\.\d+)?)', current_dosage)\<close>\<close>
  "dosage_numbers_of current_dosage = findall_strings False (Group 1 number_re) current_dosage"

definition unit_of :: "string \<Rightarrow> string" where
  \<comment> \<open>\<open>re.search(r'(mg|ml|g|mcg|units?)', current_dosage, re.IGNORECASE)\<close>, then
      \<open>unit.group(1) if unit else "units"\<close>\<close>
  "unit_of current_dosage =
     (case search True (Group 1 units_re) current_dosage of
        Some g \<Rightarrow> g 1
      | None \<Rightarrow> ''units'')"

definition safe_threshold_of :: "string \<Rightarrow> int" where
  "safe_threshold_of unit =
     (if lower_str unit \<in> set [''mg'', ''g''] then
        (if lower_str unit = ''mg'' then 500 else 5)
      else if lower_str unit \<in> set [''ml''] then 50
      else 100)"

definition assess_dosage :: "(string \<Rightarrow> error + pyfloat) \<Rightarrow> string \<Rightarrow> error + string \<times> string" where
  \<comment> \<open>the body of the \<open>try\<close>, giving \<open>(status, info)\<close>; \<open>float\<close> is the conversion \<open>conv\<close>, and
      an exception that it raises leaves the body\<close>
  "assess_dosage conv current_dosage =
     (case dosage_numbers_of current_dosage of
        [] \<Rightarrow> Inr (''Review Required'', ''Current: '' @ current_dosage @ '', Unable to parse dosage'')
      | tok # _ \<Rightarrow>
          (case conv tok of
             Inl e \<Rightarrow> Inl e
           | Inr number \<Rightarrow>
               let unit = unit_of current_dosage;
                   safe_threshold = safe_threshold_of unit;
                   status = (if float_le_int number safe_threshold then ''Safe'' else ''Review Required'');
                   recommended =
                     (if float_gt_int number safe_threshold
                      then format_1f (fmul number float_0_9) @ '' '' @ unit
                      else current_dosage);
                   info = ''Current: '' @ current_dosage @ '', Recommended: '' @ recommended
               in Inr (status, info)))"

definition analyze_entry_with :: "(string \<Rightarrow> error + pyfloat) \<Rightarrow> string \<Rightarrow> string \<Rightarrow> assessment" where
  \<comment> \<open>\<open>try: ... except: ...\<close> and the record appended to \<open>analysis\<close>\<close>
  "analyze_entry_with conv med current_dosage =
     (case assess_dosage conv current_dosage of
        Inr (st, msg) \<Rightarrow> \<lparr>medicine = med, status = st, info = msg\<rparr>
      | Inl e \<Rightarrow>
          \<lparr>medicine = med, status = ''Review Required'',
           info = ''Current: '' @ current_dosage @ '', Unable to calculate recommendation''\<rparr>)"

definition analyze_entry :: "string \<Rightarrow> string \<Rightarrow> assessment" where
  "analyze_entry med current_dosage = analyze_entry_with py_float med current_dosage"

definition current_dosage_at :: "string list \<Rightarrow> nat \<Rightarrow> string" where
  \<comment> \<open>\<open>dosages[i] if i < len(dosages) else "Unknown"\<close>\<close>
  "current_dosage_at dosages i = (if i < length dosages then dosages ! i else ''Unknown'')"

definition analysis_of :: "string list \<Rightarrow> string list \<Rightarrow> assessment list" where
  \<comment> \<open>\<open>for i, med in enumerate(medications)\<close>\<close>
  "analysis_of medications dosages =
     map (\<lambda>(i, med). analyze_entry med (current_dosage_at dosages i)) (enumerate 0 medications)"

definition file_type_of :: "string \<Rightarrow> string" where
  "file_type_of file_extension = (if file_extension = ''txt'' then ''text file'' else ''image'')"

definition no_medications :: "string \<Rightarrow> assessment" where
  "no_medications file_extension =
     \<lparr>medicine = ''No medications detected'', status = ''Review Required'',
      info = ''Please ensure the '' @ file_type_of file_extension
               @ '' contains clear prescription information''\<rparr>"

definition analyze_prescription :: "string \<Rightarrow> string \<Rightarrow> assessment list" where
  \<comment> \<open>from the text of the upload to the list \<open>analysis\<close> of the response\<close>
  "analyze_prescription file_extension output_text =
     (case parse_prescription_text output_text of (medications, dosages) \<Rightarrow>
        let analysis = analysis_of medications dosages
        in if analysis = [] then [no_medications file_extension] else analysis)"

section \<open>Vocabulary of the specification\<close>

text \<open>
  The matches that the extractor sees, in the order of its three loops: line by line,
  pattern by pattern, match by match. The word token of a match is its first group.
\<close>

definition line_matches :: "string \<Rightarrow> string list list" where
  "line_matches line0 =
     (let line = strip line0 in
      if line = [] then []
      else concat (map (\<lambda>pattern. findall True pattern line) medication_patterns))"

definition text_matches :: "string \<Rightarrow> string list list" where
  "text_matches text = concat (map line_matches (split_on (CHR 0x0A) text))"

definition matched_names :: "string \<Rightarrow> string list" where
  "matched_names text = map (\<lambda>m. m ! 0) (text_matches text)"

definition first_upper_only :: "string \<Rightarrow> string" where
  \<comment> \<open>the normalisation that the specification words: the first character forced to upper
      case, the others unchanged\<close>
  "first_upper_only s = (case s of [] \<Rightarrow> [] | c # cs \<Rightarrow> upper_chr c # cs)"

definition spec_threshold :: "string \<Rightarrow> int" where
  \<comment> \<open>the table of the specification: 500 for mg, 5 for g, 50 for ml, 100 for any other
      unit, the unit compared without regard to case\<close>
  "spec_threshold u =
     (if lower_str u = ''mg'' then 500
      else if lower_str u = ''g'' then 5
      else if lower_str u = ''ml'' then 50
      else 100)"

definition plain_case :: "char \<Rightarrow> bool" where
  \<comment> \<open>the characters whose upper case, if they have one, is a character of the range: all
      but the micro sign, the sharp s and the y with diaeresis\<close>
  "plain_case c = (c \<notin> set [CHR 0xB5, CHR 0xDF, CHR 0xFF])"

definition always_raises :: "string \<Rightarrow> error + pyfloat" where
  \<comment> \<open>a conversion that fails on every string, to exercise the \<open>except\<close> branch\<close>
  "always_raises s = Inl ValueError"

section \<open>Properties of the pattern matcher\<close>

declare findall.simps [simp del]
declare search.simps [simp del]
declare matches.simps [simp del]

lemma length_groups_of:
  "length (groups_of r s t g) = (if ngroups r = 0 then 1 else ngroups r)"
  by (simp add: groups_of_def)

lemma findall_Nil:
  "findall ic r [] = (case match_here ic r [] of None \<Rightarrow> [] | Some (t, g) \<Rightarrow> [groups_of r [] t g])"
  by (subst findall.simps) (simp split: option.splits)

lemma findall_None: "match_here ic r (x # s) = None \<Longrightarrow> findall ic r (x # s) = findall ic r s"
  by (subst findall.simps) simp

lemma findall_Some:
  "match_here ic r (x # s) = Some (t, g) \<Longrightarrow>
   findall ic r (x # s) =
     groups_of r (x # s) t g # findall ic r (if length t < length (x # s) then t else s)"
  by (subst findall.simps) simp

lemma length_findall:
  "m \<in> set (findall ic r s) \<Longrightarrow> length m = (if ngroups r = 0 then 1 else ngroups r)"
proof (induction s arbitrary: m rule: length_induct)
  case (1 s)
  show ?case
  proof (cases s)
    case Nil
    with "1.prems" show ?thesis
      by (auto simp: findall_Nil length_groups_of split: option.splits)
  next
    case (Cons x s')
    show ?thesis
    proof (cases "match_here ic r (x # s')")
      case None
      with "1.prems" Cons have "m \<in> set (findall ic r s')"
        by (simp add: findall_None)
      moreover have "length s' < length s" using Cons by simp
      ultimately show ?thesis using "1.IH" by blast
    next
      case (Some p)
      obtain t g where p: "p = (t, g)" by (cases p)
      let ?u = "if length t < length (x # s') then t else s'"
      have "length ?u < length s" using Cons by simp
      moreover from "1.prems" Cons Some p
      have "m = groups_of r (x # s') t g \<or> m \<in> set (findall ic r ?u)"
        by (simp add: findall_Some)
      ultimately show ?thesis
        using "1.IH" length_groups_of [of r "x # s'" t g] by blast
    qed
  qed
qed

lemma ngroups_Plus: "ngroups (Plus r) = 2 * ngroups r"
  by (simp add: Plus_def)

lemma ngroups_lits: "ngroups (lits c cs) = 0"
  by (induction c cs rule: lits.induct) simp_all

lemma ngroups_number_re: "ngroups number_re = 0"
  by (simp add: number_re_def ngroups_Plus)

lemma ngroups_units_re: "ngroups units_re = 0"
  by (simp add: units_re_def ngroups_lits)

lemma ngroups_dosage_re: "ngroups dosage_re = 0"
  by (simp add: dosage_re_def ngroups_number_re ngroups_units_re)

lemma ngroups_patterns:
  "ngroups pattern_1 = 2" "ngroups pattern_2 = 2" "ngroups pattern_3 = 3"
  by (simp_all add: pattern_1_def pattern_2_def pattern_3_def ngroups_Plus
        ngroups_dosage_re ngroups_number_re ngroups_units_re)

lemma pattern_match_length:
  assumes "pattern \<in> set medication_patterns" and "m \<in> set (findall True pattern line)"
  shows "length m = 2 \<or> length m = 3"
  using assms length_findall [of m True pattern line]
  by (auto simp: medication_patterns_def ngroups_patterns)

section \<open>Properties of the entry extractor\<close>

lemma add_match_lengths:
  "length (fst acc) = length (snd acc) \<Longrightarrow>
   length (fst (add_match m acc)) = length (snd (add_match m acc))"
  by (cases acc) (simp add: add_match_def)

lemma fold_add_match_lengths:
  "length (fst acc) = length (snd acc) \<Longrightarrow>
   length (fst (fold add_match ms acc)) = length (snd (fold add_match ms acc))"
  by (induction ms arbitrary: acc) (simp_all add: add_match_lengths)

lemma try_pattern_lengths:
  "length (fst acc) = length (snd acc) \<Longrightarrow>
   length (fst (try_pattern line pattern acc)) = length (snd (try_pattern line pattern acc))"
  by (simp add: try_pattern_def fold_add_match_lengths)

lemma fold_try_pattern_lengths:
  "length (fst acc) = length (snd acc) \<Longrightarrow>
   length (fst (fold (try_pattern line) ps acc)) = length (snd (fold (try_pattern line) ps acc))"
  by (induction ps arbitrary: acc) (simp_all add: try_pattern_lengths)

lemma scan_line_lengths:
  "length (fst acc) = length (snd acc) \<Longrightarrow>
   length (fst (scan_line line acc)) = length (snd (scan_line line acc))"
  by (simp add: scan_line_def Let_def fold_try_pattern_lengths)

lemma fold_scan_line_lengths:
  "length (fst acc) = length (snd acc) \<Longrightarrow>
   length (fst (fold scan_line ls acc)) = length (snd (fold scan_line ls acc))"
  by (induction ls arbitrary: acc) (simp_all add: scan_line_lengths)

lemma parse_lengths:
  "length (fst (parse_prescription_text text)) = length (snd (parse_prescription_text text))"
  by (simp add: parse_prescription_text_def Let_def fold_scan_line_lengths)

lemma fold_add_match_names:
  "\<forall>m \<in> set ms. length m = 2 \<or> length m = 3 \<Longrightarrow>
   fst (fold add_match ms acc) = fst acc @ map (\<lambda>m. capitalize (m ! 0)) ms"
proof (induction ms arbitrary: acc)
  case Nil
  show ?case by simp
next
  case (Cons m ms)
  from Cons.prems have "length m = 2 \<or> length m = 3" by simp
  then have "fst (add_match m acc) = fst acc @ [capitalize (m ! 0)]"
    by (cases acc) (auto simp: add_match_def)
  with Cons show ?case by simp
qed

lemma fold_try_pattern_names:
  "set ps \<subseteq> set medication_patterns \<Longrightarrow>
   fst (fold (try_pattern line) ps acc) =
     fst acc @ map (\<lambda>m. capitalize (m ! 0)) (concat (map (\<lambda>pattern. findall True pattern line) ps))"
proof (induction ps arbitrary: acc)
  case Nil
  show ?case by simp
next
  case (Cons p ps)
  from Cons.prems have "\<forall>m \<in> set (findall True p line). length m = 2 \<or> length m = 3"
    using pattern_match_length by auto
  then have "fst (try_pattern line p acc) = fst acc @ map (\<lambda>m. capitalize (m ! 0)) (findall True p line)"
    by (simp add: try_pattern_def fold_add_match_names)
  with Cons show ?case by simp
qed

lemma scan_line_names:
  "fst (scan_line line acc) = fst acc @ map (\<lambda>m. capitalize (m ! 0)) (line_matches line)"
  by (simp add: scan_line_def line_matches_def Let_def fold_try_pattern_names)

lemma fold_scan_line_names:
  "fst (fold scan_line ls acc) =
     fst acc @ map (\<lambda>m. capitalize (m ! 0)) (concat (map line_matches ls))"
  by (induction ls arbitrary: acc) (simp_all add: scan_line_names)

lemma parse_names:
  "fst (parse_prescription_text text) = map (\<lambda>m. capitalize (m ! 0)) (text_matches text)"
  by (simp add: parse_prescription_text_def text_matches_def Let_def fold_scan_line_names)

lemma capitalize_cases:
  "capitalize tok = (case tok of [] \<Rightarrow> [] | c # cs \<Rightarrow> upper_chr c # map lower_chr cs)"
  by (cases tok) simp_all

section \<open>Properties of the pipeline\<close>

lemma length_analysis_of: "length (analysis_of medications dosages) = length medications"
  by (simp add: analysis_of_def)

lemma analysis_of_Nil: "analysis_of medications dosages = [] \<longleftrightarrow> medications = []"
  using length_analysis_of [of medications dosages] by (metis length_0_conv)

lemma parse_amoxicillin:
  "parse_prescription_text ''Amoxicillin 500mg'' =
     ([''Amoxicillin'', ''Amoxicillin''], [''500mg'', ''500 mg''])"
  by code_simp

lemma parse_empty: "parse_prescription_text [] = ([], [])"
  by code_simp

text \<open>
  Claim C1, as the specification states it: the text "Amoxicillin 500mg" gives exactly one
  record. It does not: the third pattern matches wherever the first one does, since its
  white space between number and unit is optional too, so the line is extracted twice.
\<close>

theorem amoxicillin_single_record_counterexample:
  "analyze_prescription ''txt'' ''Amoxicillin 500mg'' \<noteq>
     [\<lparr>medicine = ''Amoxicillin'', status = ''Safe'',
       info = ''Current: 500mg, Recommended: 500mg''\<rparr>]"
  by code_simp

text \<open>
  Claim C1, what the pipeline computes on that text: "Amoxicillin 500mg" gives exactly two
  records, both for the medicine "Amoxicillin" with status Safe; the first, from the first
  pattern, has the info "Current: 500mg, Recommended: 500mg", the second, from the third
  pattern, has the info "Current: 500 mg, Recommended: 500 mg". The file extension plays
  no part.
\<close>

theorem amoxicillin_two_records:
  "analyze_prescription file_extension ''Amoxicillin 500mg'' =
     [\<lparr>medicine = ''Amoxicillin'', status = ''Safe'',
       info = ''Current: 500mg, Recommended: 500mg''\<rparr>,
      \<lparr>medicine = ''Amoxicillin'', status = ''Safe'',
       info = ''Current: 500 mg, Recommended: 500 mg''\<rparr>]"
proof -
  have "analysis_of [''Amoxicillin'', ''Amoxicillin''] [''500mg'', ''500 mg''] =
     [\<lparr>medicine = ''Amoxicillin'', status = ''Safe'',
       info = ''Current: 500mg, Recommended: 500mg''\<rparr>,
      \<lparr>medicine = ''Amoxicillin'', status = ''Safe'',
       info = ''Current: 500 mg, Recommended: 500 mg''\<rparr>]"
    by code_simp
  then show ?thesis
    by (simp add: analyze_prescription_def parse_amoxicillin)
qed

lemma ecole_plain_case: "list_all plain_case (CHR 0xE9 # ''COLE 5mg'')"
  by code_simp

lemma ecole_matched_names:
  "matched_names (CHR 0xE9 # ''COLE 5mg'') = [CHR 0xE9 # ''COLE'', CHR 0xE9 # ''COLE'']"
  by code_simp

lemma ecole_upper: "upper_chr (CHR 0xE9) = CHR 0xC9"
  by code_simp

lemma cole_lower:
  "lower_chr CHR ''C'' = CHR ''c''" "lower_chr CHR ''O'' = CHR ''o''"
  "lower_chr CHR ''L'' = CHR ''l''" "lower_chr CHR ''E'' = CHR ''e''"
  by code_simp+

text \<open>
  Claim C2, as the specification states it: the emitted name is the matched word token
  with only its first character forced to upper case, the others unchanged. For the line
  "aSPIRIN 5mg" that would be "ASPIRIN"; the extractor emits "Aspirin".
\<close>

theorem first_upper_only_counterexample:
  "fst (parse_prescription_text ''aSPIRIN 5mg'') \<noteq>
     map first_upper_only (matched_names ''aSPIRIN 5mg'')"
  by code_simp

text \<open>
  Claim C2, amended: for every text without the micro sign, the sharp s and the y with
  diaeresis, the emitted medicine names are, in order, the word tokens of the matches, each
  with its first character upper-cased and every other character lower-cased, which is
  what \<open>str.capitalize\<close> does.
\<close>

theorem names_are_capitalized_tokens:
  assumes "list_all plain_case text"
  shows "fst (parse_prescription_text text) =
     map (\<lambda>tok. case tok of [] \<Rightarrow> [] | c # cs \<Rightarrow> upper_chr c # map lower_chr cs)
         (matched_names text)"
proof -
  have "fst (parse_prescription_text text) = map capitalize (matched_names text)"
    by (simp add: parse_names matched_names_def comp_def)
  also have "capitalize = (\<lambda>tok. case tok of [] \<Rightarrow> [] | c # cs \<Rightarrow> upper_chr c # map lower_chr cs)"
    by (rule ext) (rule capitalize_cases)
  finally show ?thesis .
qed

theorem names_are_capitalized_tokens_witness:
  "list_all plain_case (CHR 0xE9 # ''COLE 5mg'')
   \<and> matched_names (CHR 0xE9 # ''COLE 5mg'') = [CHR 0xE9 # ''COLE'', CHR 0xE9 # ''COLE'']
   \<and> fst (parse_prescription_text (CHR 0xE9 # ''COLE 5mg'')) =
       [CHR 0xC9 # ''cole'', CHR 0xC9 # ''cole'']"
  using names_are_capitalized_tokens [OF ecole_plain_case] ecole_plain_case
  by (simp add: ecole_matched_names ecole_upper cole_lower)

text \<open>
  Claim C5: for every text, the number of assessment records is the greater of 1 and the
  number of extracted entries.
\<close>

theorem analysis_length:
  "length (analyze_prescription file_extension text) =
     max 1 (length (fst (parse_prescription_text text)))"
proof (cases "parse_prescription_text text")
  case (Pair medications dosages)
  show ?thesis
  proof (cases "medications = []")
    case True
    with Pair show ?thesis
      by (simp add: analyze_prescription_def Let_def analysis_of_Nil)
  next
    case False
    then have "Suc 0 \<le> length medications" by (cases medications) simp_all
    with Pair False show ?thesis
      by (simp add: analyze_prescription_def Let_def analysis_of_Nil length_analysis_of max_def)
  qed
qed

theorem analysis_length_witness:
  "length (analyze_prescription ''txt'' ''Amoxicillin 500mg'') = 2
   \<and> length (analyze_prescription ''png'' []) = 1"
  using analysis_length [of "''txt''" "''Amoxicillin 500mg''"] analysis_length [of "''png''" "[]"]
  by (simp add: parse_amoxicillin parse_empty)

section \<open>Properties of the dosage assessor\<close>

lemma float_gt_int_iff: "float_gt_int m n \<longleftrightarrow> \<not> float_le_int m n"
  by (cases m) (simp_all add: not_le)

lemma safe_threshold_of_spec: "safe_threshold_of u = spec_threshold u"
  by (simp add: safe_threshold_of_def spec_threshold_def)

lemma assess_dosage_number:
  assumes "dosage_numbers_of d = tok # rest" and "conv tok = Inr m"
  shows "assess_dosage conv d =
     Inr (if float_le_int m (safe_threshold_of (unit_of d)) then ''Safe'' else ''Review Required'',
          ''Current: '' @ d @ '', Recommended: '' @
            (if float_gt_int m (safe_threshold_of (unit_of d))
             then format_1f (fmul m float_0_9) @ '' '' @ unit_of d
             else d))"
  using assms by (simp add: assess_dosage_def Let_def)

lemma assess_dosage_raises:
  assumes "dosage_numbers_of d = tok # rest" and "conv tok = Inl e"
  shows "assess_dosage conv d = Inl e"
  using assms by (simp add: assess_dosage_def)

lemma assess_dosage_no_number:
  assumes "dosage_numbers_of d = []"
  shows "assess_dosage conv d =
     Inr (''Review Required'', ''Current: '' @ d @ '', Unable to parse dosage'')"
  using assms by (simp add: assess_dosage_def)

lemma matches_number_no_digit:
  "s = [] \<or> \<not> is_digit (hd s) \<Longrightarrow> matches ic (Group n number_re) s g = []"
  by (cases s) (simp_all add: number_re_def Plus_def matches.simps(2,3,7))

lemma findall_number_no_digit:
  "\<forall>c \<in> set s. \<not> is_digit c \<Longrightarrow> findall ic (Group n number_re) s = []"
proof (induction s)
  case Nil
  show ?case
    by (simp add: findall_Nil match_here_def matches_number_no_digit)
next
  case (Cons x s)
  then have "match_here ic (Group n number_re) (x # s) = None"
    by (simp add: match_here_def matches_number_no_digit)
  then have "findall ic (Group n number_re) (x # s) = findall ic (Group n number_re) s"
    by (rule findall_None)
  with Cons show ?case by simp
qed

lemma dosage_numbers_no_digit:
  "\<forall>c \<in> set d. \<not> is_digit c \<Longrightarrow> dosage_numbers_of d = []"
  by (simp add: dosage_numbers_of_def findall_strings_def findall_number_no_digit)

lemma dosage_numbers_500mg: "dosage_numbers_of ''500mg'' = [''500'']"
  by code_simp

lemma dosage_numbers_501mg: "dosage_numbers_of ''501mg'' = [''501'']"
  by code_simp

lemma dosage_numbers_600mg: "dosage_numbers_of ''600mg'' = [''600'']"
  by code_simp

lemma py_float_500: "py_float ''500'' = Inr (Finite 500)"
  by code_simp

lemma py_float_501: "py_float ''501'' = Inr (Finite 501)"
  by code_simp

lemma py_float_600: "py_float ''600'' = Inr (Finite 600)"
  by code_simp

lemma unit_of_500mg: "unit_of ''500mg'' = ''mg''"
  by code_simp

lemma unit_of_501mg: "unit_of ''501mg'' = ''mg''"
  by code_simp

lemma unit_of_600mg: "unit_of ''600mg'' = ''mg''"
  by code_simp

lemma spec_threshold_mg: "spec_threshold ''mg'' = 500"
  by code_simp

lemma format_540: "format_1f (fmul (Finite 600) float_0_9) = ''540.0''"
  by code_simp

lemma status_600mg: "status (analyze_entry ''Ibuprofen'' ''600mg'') = ''Review Required''"
  by code_simp

lemma unknown_no_digit: "\<forall>c \<in> set ''Unknown''. \<not> is_digit c"
  by code_simp

lemma assess_raises_5mg: "assess_dosage always_raises ''5mg'' = Inl ValueError"
  by code_simp

section \<open>The number tokens convert\<close>

text \<open>
  Every way in which the pattern of a number matches consumes a decimal literal: digits,
  or digits, a point and digits. The conversion \<open>float\<close> accepts every such literal, so with
  it the body of the \<open>try\<close> never raises.
\<close>

lemma matches_Seq_iff:
  "(t, g') \<in> set (matches ic (Seq a b) s g) \<longleftrightarrow>
     (\<exists>t1 g1. (t1, g1) \<in> set (matches ic a s g) \<and> (t, g') \<in> set (matches ic b t1 g1))"
  by (force simp: matches.simps(3))

lemma matches_Group_iff:
  "(t, g') \<in> set (matches ic (Group n a) s g) \<longleftrightarrow>
     (\<exists>g1. (t, g1) \<in> set (matches ic a s g) \<and> g' = g1(n := take (length s - length t) s))"
  by (force simp: matches.simps(7))

lemma matches_Star_Class_Nil: "matches ic (Star (Class k)) [] g = [([], g)]"
  by (subst matches.simps(6)) (simp add: matches.simps(2))

lemma matches_Star_Class_Cons:
  "matches ic (Star (Class k)) (x # u) g =
     (if in_class k x then matches ic (Star (Class k)) u g else []) @ [(x # u, g)]"
  by (subst matches.simps(6)) (simp add: matches.simps(2))

lemma matches_Star_Digit:
  "(t, g') \<in> set (matches ic (Star (Class Digit)) s g) \<Longrightarrow>
     g' = g \<and> (\<exists>ds. s = ds @ t \<and> list_all is_digit ds)"
proof (induction s)
  case Nil
  then show ?case by (simp add: matches_Star_Class_Nil)
next
  case (Cons x u)
  from Cons.prems consider
      (more) "is_digit x" and "(t, g') \<in> set (matches ic (Star (Class Digit)) u g)"
    | (stop) "t = x # u" and "g' = g"
    by (auto simp: matches_Star_Class_Cons split: if_splits)
  then show ?case
  proof cases
    case more
    with Cons.IH obtain ds where "g' = g" and "u = ds @ t" and "list_all is_digit ds"
      by blast
    then have "x # u = (x # ds) @ t" and "list_all is_digit (x # ds)"
      using more(1) by simp_all
    with \<open>g' = g\<close> show ?thesis by blast
  next
    case stop
    then have "x # u = [] @ t" and "list_all is_digit []" by simp_all
    with stop show ?thesis by blast
  qed
qed

lemma matches_Plus_Digit:
  assumes "(t, g') \<in> set (matches ic (Plus (Class Digit)) s g)"
  shows "g' = g \<and> (\<exists>ds. s = ds @ t \<and> ds \<noteq> [] \<and> list_all is_digit ds)"
proof -
  from assms obtain t1 g1 where
    a: "(t1, g1) \<in> set (matches ic (Class Digit) s g)" and
    b: "(t, g') \<in> set (matches ic (Star (Class Digit)) t1 g1)"
    by (auto simp: Plus_def matches_Seq_iff)
  from a obtain x where "s = x # t1" and "is_digit x" and "g1 = g"
    by (cases s) (auto simp: matches.simps(2) split: if_splits)
  moreover from b obtain ds where "g' = g1" and "t1 = ds @ t" and "list_all is_digit ds"
    using matches_Star_Digit by blast
  ultimately have "s = (x # ds) @ t" and "x # ds \<noteq> []" and "list_all is_digit (x # ds)"
    and "g' = g"
    by simp_all
  then show ?thesis by blast
qed

lemma matches_fraction:
  assumes "(t, g') \<in> set (matches False (Opt (Seq (Lit CHR ''.'') (Plus (Class Digit)))) s g)"
  shows "g' = g \<and>
     (\<exists>fp. s = fp @ t \<and>
        (fp = [] \<or> (\<exists>ds. ds \<noteq> [] \<and> list_all is_digit ds \<and> fp = CHR ''.'' # ds)))"
proof -
  from assms consider
      (frac) t1 g1 where "(t1, g1) \<in> set (matches False (Lit CHR ''.'') s g)"
        and "(t, g') \<in> set (matches False (Plus (Class Digit)) t1 g1)"
    | (none) "t = s" and "g' = g"
    by (auto simp: matches.simps(5) matches_Seq_iff)
  then show ?thesis
  proof cases
    case frac
    from frac(1) have "s = CHR ''.'' # t1" and "g1 = g"
      by (cases s; simp add: matches.simps(1) split: if_splits)+
    moreover from frac(2) obtain ds where "g' = g1" and "t1 = ds @ t" and "ds \<noteq> []"
      and "list_all is_digit ds"
      using matches_Plus_Digit by blast
    ultimately have "s = (CHR ''.'' # ds) @ t" and "g' = g" by simp_all
    with \<open>ds \<noteq> []\<close> \<open>list_all is_digit ds\<close> show ?thesis by blast
  next
    case none
    then have "s = [] @ t" by simp
    with none show ?thesis by blast
  qed
qed

lemma matches_number_re:
  assumes "(t, g') \<in> set (matches False number_re s g)"
  shows "g' = g \<and>
     (\<exists>ip fp. s = ip @ fp @ t \<and> ip \<noteq> [] \<and> list_all is_digit ip \<and>
        (fp = [] \<or> (\<exists>ds. ds \<noteq> [] \<and> list_all is_digit ds \<and> fp = CHR ''.'' # ds)))"
proof -
  from assms obtain t1 g1 where
    a: "(t1, g1) \<in> set (matches False (Plus (Class Digit)) s g)" and
    b: "(t, g') \<in> set (matches False (Opt (Seq (Lit CHR ''.'') (Plus (Class Digit)))) t1 g1)"
    by (auto simp: number_re_def matches_Seq_iff)
  from a obtain ip where "g1 = g" and "s = ip @ t1" and "ip \<noteq> []" and "list_all is_digit ip"
    using matches_Plus_Digit by blast
  moreover from b obtain fp where "g' = g1" and "t1 = fp @ t"
    and "fp = [] \<or> (\<exists>ds. ds \<noteq> [] \<and> list_all is_digit ds \<and> fp = CHR ''.'' # ds)"
    using matches_fraction by blast
  ultimately show ?thesis by auto
qed

lemma digit_not_point: "is_digit c \<Longrightarrow> c \<noteq> CHR ''.''"
  by (auto simp: is_digit_def)

lemma py_float_literal:
  assumes "ip \<noteq> []" and "list_all is_digit ip"
    and "fp = [] \<or> (\<exists>ds. ds \<noteq> [] \<and> list_all is_digit ds \<and> fp = CHR ''.'' # ds)"
  shows "\<exists>m. py_float (ip @ fp) = Inr m"
proof -
  have ip: "\<And>c. c \<in> set ip \<Longrightarrow> c \<noteq> CHR ''.''"
    using assms(2) digit_not_point by (auto simp: list_all_iff)
  from assms(3) show ?thesis
  proof
    assume "fp = []"
    moreover have tw: "takeWhile (\<lambda>c. c \<noteq> CHR ''.'') ip = ip"
      and dw: "dropWhile (\<lambda>c. c \<noteq> CHR ''.'') ip = []"
      using ip by simp_all
    ultimately show ?thesis
      using assms(1,2) by (simp add: py_float_def Let_def tw dw)
  next
    assume "\<exists>ds. ds \<noteq> [] \<and> list_all is_digit ds \<and> fp = CHR ''.'' # ds"
    then obtain ds where ds: "ds \<noteq> []" "list_all is_digit ds" "fp = CHR ''.'' # ds"
      by blast
    have tw: "takeWhile (\<lambda>c. c \<noteq> CHR ''.'') (ip @ CHR ''.'' # ds) = ip"
      and dw: "dropWhile (\<lambda>c. c \<noteq> CHR ''.'') (ip @ CHR ''.'' # ds) = CHR ''.'' # ds"
      using ip by (simp_all add: takeWhile_append2 dropWhile_append2)
    from ds assms(1,2) show ?thesis
      by (simp add: py_float_def Let_def tw dw)
  qed
qed

lemma groups_of_number: "groups_of (Group n number_re) u t g = [g 1]"
  by (simp add: groups_of_def ngroups_number_re)

lemma match_here_number_token:
  assumes "match_here False (Group 1 number_re) s = Some (t, g)"
  shows "\<exists>m. py_float (g 1) = Inr m"
proof -
  from assms have "(t, g) \<in> set (matches False (Group 1 number_re) s (\<lambda>_. []))"
    by (auto simp: match_here_def split: list.splits)
  then obtain g1 where m: "(t, g1) \<in> set (matches False number_re s (\<lambda>_. []))"
    and g: "g = g1(1 := take (length s - length t) s)"
    by (auto simp: matches_Group_iff)
  from matches_number_re [OF m] obtain ip fp where "s = ip @ fp @ t" and "ip \<noteq> []"
    and "list_all is_digit ip"
    and "fp = [] \<or> (\<exists>ds. ds \<noteq> [] \<and> list_all is_digit ds \<and> fp = CHR ''.'' # ds)"
    by blast
  moreover from this(1) g have "g 1 = ip @ fp" by simp
  ultimately show ?thesis using py_float_literal by simp
qed

lemma findall_number_tokens:
  "m \<in> set (findall False (Group 1 number_re) s) \<Longrightarrow> \<exists>v. py_float (m ! 0) = Inr v"
proof (induction s arbitrary: m rule: length_induct)
  case (1 s)
  let ?r = "Group 1 number_re"
  show ?case
  proof (cases s)
    case Nil
    with "1.prems" show ?thesis
      by (simp add: findall_Nil match_here_def matches_number_no_digit)
  next
    case (Cons x s')
    show ?thesis
    proof (cases "match_here False ?r (x # s')")
      case None
      with "1.prems" Cons have "m \<in> set (findall False ?r s')"
        by (simp add: findall_None)
      moreover have "length s' < length s" using Cons by simp
      ultimately show ?thesis using "1.IH" by blast
    next
      case (Some p)
      obtain t g where p: "p = (t, g)" by (cases p)
      let ?u = "if length t < length (x # s') then t else s'"
      have "length ?u < length s" using Cons by simp
      moreover from "1.prems" Cons Some p
      have "m = [g 1] \<or> m \<in> set (findall False ?r ?u)"
        by (simp add: findall_Some groups_of_number)
      moreover from Some p have "\<exists>v. py_float (g 1) = Inr v"
        using match_here_number_token by blast
      ultimately show ?thesis
        using "1.IH" by auto
    qed
  qed
qed

lemma dosage_numbers_convert:
  "tok \<in> set (dosage_numbers_of d) \<Longrightarrow> \<exists>m. py_float tok = Inr m"
  using findall_number_tokens by (auto simp: dosage_numbers_of_def findall_strings_def)

lemma assess_dosage_float_returns: "\<exists>r. assess_dosage py_float d = Inr r"
proof (cases "dosage_numbers_of d")
  case Nil
  then show ?thesis by (simp add: assess_dosage_no_number)
next
  case (Cons tok rest)
  then obtain m where "py_float tok = Inr m"
    using dosage_numbers_convert [of tok d] by auto
  with Cons show ?thesis
    using assess_dosage_number [of d tok rest py_float m] by simp
qed

section \<open>A dosage has a number exactly when it has a digit\<close>

lemma matches_Star_not_Nil: "matches ic (Star a) s g \<noteq> []"
  by (subst matches.simps(6)) simp

lemma matches_Opt_not_Nil: "matches ic (Opt a) s g \<noteq> []"
  by (simp add: matches.simps(5))

lemma matches_Seq_not_Nil:
  assumes "p \<in> set (matches ic a s g)" and "matches ic b (fst p) (snd p) \<noteq> []"
  shows "matches ic (Seq a b) s g \<noteq> []"
  using assms by (auto simp: matches.simps(3))

lemma matches_number_digit:
  assumes "is_digit x"
  shows "matches ic (Group n number_re) (x # u) g \<noteq> []"
proof -
  have "(u, g) \<in> set (matches ic (Class Digit) (x # u) g)"
    using assms by (simp add: matches.simps(2))
  then have "matches ic (Plus (Class Digit)) (x # u) g \<noteq> []"
    unfolding Plus_def by (rule matches_Seq_not_Nil) (simp add: matches_Star_not_Nil)
  then obtain p where "p \<in> set (matches ic (Plus (Class Digit)) (x # u) g)"
    by (cases "matches ic (Plus (Class Digit)) (x # u) g") auto
  then have "matches ic number_re (x # u) g \<noteq> []"
    unfolding number_re_def by (rule matches_Seq_not_Nil) (rule matches_Opt_not_Nil)
  then show ?thesis
    by (simp add: matches.simps(7))
qed

lemma findall_number_digit:
  "\<exists>c \<in> set s. is_digit c \<Longrightarrow> findall ic (Group n number_re) s \<noteq> []"
proof (induction s)
  case Nil
  then show ?case by simp
next
  case (Cons x s)
  show ?case
  proof (cases "is_digit x")
    case True
    then obtain p ps where "matches ic (Group n number_re) (x # s) (\<lambda>_. []) = p # ps"
      using matches_number_digit [of x ic n s "\<lambda>_. []"]
      by (cases "matches ic (Group n number_re) (x # s) (\<lambda>_. [])") auto
    then have "match_here ic (Group n number_re) (x # s) = Some (fst p, snd p)"
      by (simp add: match_here_def)
    then show ?thesis
      using findall_Some [of ic "Group n number_re" x s "fst p" "snd p"] by simp
  next
    case False
    then have "match_here ic (Group n number_re) (x # s) = None"
      by (simp add: match_here_def matches_number_no_digit)
    then have "findall ic (Group n number_re) (x # s) = findall ic (Group n number_re) s"
      by (rule findall_None)
    with Cons False show ?thesis by simp
  qed
qed

lemma dosage_numbers_Nil_iff:
  "dosage_numbers_of d = [] \<longleftrightarrow> (\<forall>c \<in> set d. \<not> is_digit c)"
  using findall_number_digit [of d False 1] dosage_numbers_no_digit [of d]
  by (auto simp: dosage_numbers_of_def findall_strings_def)

section \<open>The claims on the dosage assessor and the pipeline\<close>

text \<open>
  Claim C3: when the first number of the dosage converts to the magnitude \<open>m\<close>, the status
  is Safe exactly when \<open>m\<close> is at most the threshold of the unit, and Review Required
  exactly when \<open>m\<close> is greater; the threshold is the table of the specification: 500 for
  mg, 5 for g, 50 for ml, 100 for any other unit, the unit compared without regard to case.
\<close>

theorem status_by_threshold:
  assumes "dosage_numbers_of d = tok # rest" and "py_float tok = Inr m"
  shows "(status (analyze_entry med d) = ''Safe'' \<longleftrightarrow>
            float_le_int m (spec_threshold (unit_of d)))
       \<and> (status (analyze_entry med d) = ''Review Required'' \<longleftrightarrow>
            float_gt_int m (spec_threshold (unit_of d)))"
  using assms assess_dosage_number [of d tok rest py_float m]
  by (simp add: analyze_entry_def analyze_entry_with_def safe_threshold_of_spec float_gt_int_iff)

theorem status_by_threshold_witness:
  "dosage_numbers_of ''500mg'' = [''500''] \<and> py_float ''500'' = Inr (Finite 500)
   \<and> status (analyze_entry ''Amoxicillin'' ''500mg'') = ''Safe''
   \<and> dosage_numbers_of ''501mg'' = [''501''] \<and> py_float ''501'' = Inr (Finite 501)
   \<and> status (analyze_entry ''Amoxicillin'' ''501mg'') = ''Review Required''"
  using status_by_threshold [of "''500mg''" "''500''" "[]" "Finite 500" "''Amoxicillin''"]
    status_by_threshold [of "''501mg''" "''501''" "[]" "Finite 501" "''Amoxicillin''"]
  by (simp add: dosage_numbers_500mg dosage_numbers_501mg py_float_500 py_float_501
        unit_of_500mg unit_of_501mg spec_threshold_mg)

text \<open>
  Claim C4: when the first number of the dosage converts to the magnitude \<open>m\<close>, the info is
  "Current: ", the raw dosage, ", Recommended: " and the recommended dosage, which is the
  raw dosage unchanged when the status is Safe, and otherwise \<open>m\<close> times 0.9 in the format
  of one decimal, a space and the unit.
\<close>

theorem info_recommended:
  assumes "dosage_numbers_of d = tok # rest" and "py_float tok = Inr m"
  shows "info (analyze_entry med d) =
     ''Current: '' @ d @ '', Recommended: '' @
       (if status (analyze_entry med d) = ''Safe'' then d
        else format_1f (fmul m float_0_9) @ '' '' @ unit_of d)"
  using assms assess_dosage_number [of d tok rest py_float m]
  by (simp add: analyze_entry_def analyze_entry_with_def float_gt_int_iff)

theorem info_recommended_witness:
  "dosage_numbers_of ''600mg'' = [''600''] \<and> py_float ''600'' = Inr (Finite 600)
   \<and> info (analyze_entry ''Ibuprofen'' ''600mg'') = ''Current: 600mg, Recommended: 540.0 mg''"
  using info_recommended [of "''600mg''" "''600''" "[]" "Finite 600" "''Ibuprofen''"]
  by (simp add: dosage_numbers_600mg py_float_600 unit_of_600mg format_540 status_600mg)

text \<open>
  Claim C6: a raw dosage with no digit in it, hence with no numeric substring, is assessed
  as Review Required with the info "Current: ", the raw dosage, ", Unable to parse dosage".
\<close>

theorem no_number_unable_to_parse:
  assumes "\<forall>c \<in> set d. \<not> is_digit c"
  shows "analyze_entry med d =
     \<lparr>medicine = med, status = ''Review Required'',
      info = ''Current: '' @ d @ '', Unable to parse dosage''\<rparr>"
  using assess_dosage_no_number [OF dosage_numbers_no_digit [OF assms]]
  by (simp add: analyze_entry_def analyze_entry_with_def)

theorem no_number_unable_to_parse_witness:
  "analyze_entry ''Aspirin'' ''Unknown'' =
     \<lparr>medicine = ''Aspirin'', status = ''Review Required'',
      info = ''Current: Unknown, Unable to parse dosage''\<rparr>"
  using no_number_unable_to_parse [of "''Unknown''" "''Aspirin''"] unknown_no_digit
  by simp

text \<open>
  Claim C7: whatever the conversion of the number does, the assessment of an entry is a
  record for the medicine at hand whose status is Safe or Review Required; when the body
  of the \<open>try\<close> raises, the record has the status Review Required and the info "Current: ",
  the raw dosage, ", Unable to calculate recommendation".
\<close>

theorem assessment_never_raises:
  "medicine (analyze_entry_with conv med d) = med
   \<and> status (analyze_entry_with conv med d) \<in> {''Safe'', ''Review Required''}
   \<and> (assess_dosage conv d = Inl e \<longrightarrow>
        analyze_entry_with conv med d =
          \<lparr>medicine = med, status = ''Review Required'',
           info = ''Current: '' @ d @ '', Unable to calculate recommendation''\<rparr>)"
proof (cases "dosage_numbers_of d")
  case Nil
  then show ?thesis
    by (simp add: analyze_entry_with_def assess_dosage_no_number)
next
  case (Cons tok rest)
  show ?thesis
  proof (cases "conv tok")
    case (Inl e')
    with Cons show ?thesis
      by (simp add: analyze_entry_with_def assess_dosage_raises [of d tok rest conv e'])
  next
    case (Inr m)
    with Cons show ?thesis
      by (simp add: analyze_entry_with_def assess_dosage_number [of d tok rest conv m])
  qed
qed

theorem assessment_never_raises_witness:
  "assess_dosage always_raises ''5mg'' = Inl ValueError
   \<and> analyze_entry_with always_raises ''Aspirin'' ''5mg'' =
       \<lparr>medicine = ''Aspirin'', status = ''Review Required'',
        info = ''Current: 5mg, Unable to calculate recommendation''\<rparr>"
  using assessment_never_raises [of always_raises "''Aspirin''" "''5mg''" ValueError]
  by (simp add: assess_raises_5mg)

text \<open>
  Claim C8: a text from which no entry is extracted, the empty text among them, gives
  exactly one record, with the medicine "No medications detected", the status Review
  Required and the info "Please ensure the ", the label of the source, " contains clear
  prescription information"; the label is "text file" for the extension txt and "image"
  for any other.
\<close>

theorem no_entries_fallback:
  assumes "fst (parse_prescription_text text) = []"
  shows "analyze_prescription file_extension text =
     [\<lparr>medicine = ''No medications detected'', status = ''Review Required'',
       info = ''Please ensure the '' @ file_type_of file_extension
                @ '' contains clear prescription information''\<rparr>]"
proof (cases "parse_prescription_text text")
  case (Pair medications dosages)
  with assms have "medications = []" by simp
  with Pair show ?thesis
    by (simp add: analyze_prescription_def Let_def analysis_of_Nil no_medications_def)
qed

theorem no_entries_fallback_witness:
  "fst (parse_prescription_text []) = []
   \<and> analyze_prescription ''txt'' [] =
       [\<lparr>medicine = ''No medications detected'', status = ''Review Required'',
         info = ''Please ensure the text file contains clear prescription information''\<rparr>]
   \<and> analyze_prescription ''png'' [] =
       [\<lparr>medicine = ''No medications detected'', status = ''Review Required'',
         info = ''Please ensure the image contains clear prescription information''\<rparr>]"
  using no_entries_fallback [of "[]" "''txt''"] no_entries_fallback [of "[]" "''png''"]
  by (simp add: parse_empty file_type_of_def)

text \<open>
  Claim C10: for every text, the extractor returns as many dosages as medications, so for
  every index of a medication the guard \<open>i < len(dosages)\<close> holds and the dosage assessed
  is the one at that index, never the substitute "Unknown" of the guard.
\<close>

theorem extraction_aligned:
  "length (fst (parse_prescription_text text)) = length (snd (parse_prescription_text text))
   \<and> (\<forall>i < length (fst (parse_prescription_text text)).
         i < length (snd (parse_prescription_text text))
         \<and> current_dosage_at (snd (parse_prescription_text text)) i =
             snd (parse_prescription_text text) ! i)"
  using parse_lengths [of "text"] by (simp add: current_dosage_at_def)

theorem extraction_aligned_witness:
  "length (fst (parse_prescription_text ''Amoxicillin 500mg'')) = 2
   \<and> length (snd (parse_prescription_text ''Amoxicillin 500mg'')) = 2
   \<and> current_dosage_at (snd (parse_prescription_text ''Amoxicillin 500mg'')) 1 = ''500 mg''"
  using extraction_aligned [of "''Amoxicillin 500mg''"]
  by (simp add: parse_amoxicillin)

end
